theory Spec2Isabelle
  imports Main "HOL-Library.Char_ord" "HOL-Library.List_Lexorder"
begin

section \<open>Values, errors and outcomes\<close>

text \<open>
  The source throws \<^verbatim>\<open>new Error(message)\<close> at its guards; the runtime throws a
  TypeError when a method or property is read from \<^verbatim>\<open>undefined\<close> or \<^verbatim>\<open>null\<close>.
  The constructors below name the throw sites: \<open>ValidationError\<close> the two paging setters,
  \<open>DuplicateNameError\<close> the filter collection's \<^verbatim>\<open>add\<close>, \<open>NotFoundError\<close> the
  failed look-ups (descriptor, filter, handler), \<open>IllegalStateError\<close> the two navigation
  guards. The string is a tag for the message.
\<close>

datatype error =
    TypeError
  | ValidationError string
  | DuplicateNameError string
  | NotFoundError string
  | IllegalStateError string

text \<open>
  A method mutates the object and then returns or throws; a throw does not roll the
  object back, so both outcomes carry the state the object is left in.
\<close>

datatype 's outcome = Done 's | Throw error 's

fun andThen :: "'s outcome \<Rightarrow> ('s \<Rightarrow> 's outcome) \<Rightarrow> 's outcome" where
  "andThen (Done s) f = f s"
| "andThen (Throw e s) f = Throw e s"

fun state_of :: "'s outcome \<Rightarrow> 's" where
  "state_of (Done s) = s"
| "state_of (Throw e s) = s"

fun thrown :: "'s outcome \<Rightarrow> error option" where
  "thrown (Done s) = None"
| "thrown (Throw e s) = Some e"

datatype SortDirection = Ascending | Descending

datatype comparable = CString string | CNumber int | CBoolean bool

text \<open>
  A function value is compared by identity (\<^verbatim>\<open>===\<close>), so it is a pair of an identity
  and a body. A handler of a descriptor's \<^verbatim>\<open>changed\<close> event is either the owning
  collection's \<^verbatim>\<open>raiseChangedHandler\<close> or some other listener, which is taken to
  leave the view alone.
\<close>

type_synonym 'a Comparer = "nat \<times> ('a \<Rightarrow> 'a \<Rightarrow> int)"

datatype handler = RaiseChangedHandler | Listener nat

datatype 'a expression =
    PropertyName string
  | Selector nat "'a \<Rightarrow> comparable"
  | CompareFn "'a Comparer"
  | OtherFn nat

section \<open>Arrays\<close>

text \<open>\<^verbatim>\<open>Array.prototype.slice(start, end)\<close> on integer arguments.\<close>

definition slice :: "'a list \<Rightarrow> int \<Rightarrow> int \<Rightarrow> 'a list" where
  "slice xs start end =
     (let len = int (length xs);
          k = (if start < 0 then max (len + start) 0 else min start len);
          final = (if end < 0 then max (len + end) 0 else min end len)
      in take (nat (final - k)) (drop (nat k) xs))"

text \<open>
  \<^verbatim>\<open>Array.prototype.sort(comparefn)\<close>: a stable sort; \<open>comparefn a b > 0\<close> puts \<open>a\<close>
  after \<open>b\<close>. Without a comparator the elements are compared by their string
  conversions. The algorithm is insertion from the right end. For a comparator that is
  consistent in the sense of ECMAScript it gives the stable result every engine gives;
  for any other the language leaves the order to the engine.
\<close>

fun insert_by :: "('a \<Rightarrow> 'a \<Rightarrow> int) \<Rightarrow> 'a \<Rightarrow> 'a list \<Rightarrow> 'a list" where
  "insert_by c x [] = [x]"
| "insert_by c x (y # ys) = (if c x y > 0 then y # insert_by c x ys else x # y # ys)"

definition sort_by :: "('a \<Rightarrow> 'a \<Rightarrow> int) \<Rightarrow> 'a list \<Rightarrow> 'a list" where
  "sort_by c xs = foldr (insert_by c) xs []"

definition defaultCompare :: "('a \<Rightarrow> string) \<Rightarrow> 'a \<Rightarrow> 'a \<Rightarrow> int" where
  "defaultCompare ts x y = (if ts x < ts y then - 1 else if ts y < ts x then 1 else 0)"

definition comparefn :: "('a \<Rightarrow> string) \<Rightarrow> 'a Comparer option \<Rightarrow> 'a \<Rightarrow> 'a \<Rightarrow> int" where
  "comparefn ts c = (case c of None \<Rightarrow> defaultCompare ts | Some f \<Rightarrow> snd f)"

definition array_sort :: "('a \<Rightarrow> string) \<Rightarrow> 'a Comparer option \<Rightarrow> 'a list \<Rightarrow> 'a list" where
  "array_sort ts c xs = sort_by (comparefn ts c) xs"

text \<open>\<^verbatim>\<open>Number.prototype.toString()\<close> on a length.\<close>

fun toString :: "nat \<Rightarrow> string" where
  "toString n = (if n < 10 then [''0123456789'' ! n]
                 else toString (n div 10) @ [''0123456789'' ! (n mod 10)])"

declare toString.simps [simp del]

definition Number_toString :: "int \<Rightarrow> string" where
  "Number_toString n = (if n < 0 then CHR ''-'' # toString (nat (- n)) else toString (nat n))"

section \<open>Event\<close>

definition addEventListener :: "'h \<Rightarrow> 'h list \<Rightarrow> 'h list" where
  "addEventListener h hs = hs @ [h]"

definition removeEventListener :: "'h \<Rightarrow> 'h list \<Rightarrow> error + 'h list" where
  "removeEventListener h hs =
     (if h \<in> set hs then Inr (remove1 h hs) else Inl (NotFoundError ''handler''))"

section \<open>Descriptors and the view\<close>

text \<open>
  A field the source declares without an initialiser is \<^verbatim>\<open>undefined\<close> until
  assigned: \<open>None\<close>. The filters of a collection are distinct objects (their names
  differ), so a member is identified by its position. A sorting descriptor object can be
  added twice; \<open>sd_ref\<close> is the identity the entries of one object share, given when
  the object enters the collection.
\<close>

record 'a CollectionViewFilter =
  filter_name :: string
  filter_predicate :: "'a \<Rightarrow> bool"
  filter_handlers :: "handler list"

record 'a CollectionViewSortingDescriptor =
  sd_ref :: nat
  sd_selector :: "'a expression option"
  sd_propertyComparer :: "(nat \<times> (comparable \<Rightarrow> comparable \<Rightarrow> int)) option"
  sd_direction :: SortDirection
  sd_comparer :: "'a Comparer option"
  sd_handlers :: "handler list"

text \<open>
  \<open>toStr\<close> is the string conversion of the element type, which the runtime applies
  when \<^verbatim>\<open>sort\<close> is called without a comparator. \<open>handlers\<close> are the listeners of
  \<^verbatim>\<open>changed\<close>, taken to leave the view alone; \<open>raised\<close> records the \<^verbatim>\<open>newView\<close> of
  every \<^verbatim>\<open>CollectionViewChangedEventArgs\<close> constructed so far. \<open>fresh\<close> is the
  identity of the next descriptor object to enter \<open>sorting\<close>.
\<close>

record 'a CollectionView =
  toStr :: "'a \<Rightarrow> string"
  data :: "'a list"
  suppressFiltering :: bool
  filteredView :: "'a list option"
  filters :: "'a CollectionViewFilter list"
  suppressSorting :: bool
  sortedView :: "'a list option"
  sorting :: "'a CollectionViewSortingDescriptor list"
  suppressPaging :: bool
  pagedView :: "'a list option"
  pageSize :: int
  pageIndex :: int
  handlers :: "nat list"
  raised :: "'a list list"
  fresh :: nat

subsection \<open>Paging\<close>

definition raiseChanged :: "'a CollectionView \<Rightarrow> 'a CollectionView outcome" where
  "raiseChanged v =
     (if handlers v = [] then Done v
      else case pagedView v of
             None \<Rightarrow> Throw TypeError v
           | Some p \<Rightarrow> Done (v\<lparr>raised := raised v @ [p]\<rparr>))"

definition applyPaging :: "'a CollectionView \<Rightarrow> 'a CollectionView outcome" where
  "applyPaging v =
     (if suppressPaging v then Done v
      else case sortedView v of
             None \<Rightarrow> Throw TypeError v
           | Some xs \<Rightarrow>
               raiseChanged
                 (v\<lparr>pagedView :=
                      Some (slice xs (pageIndex v * pageSize v) ((pageIndex v + 1) * pageSize v))\<rparr>))"

definition set_pageSize :: "int \<Rightarrow> 'a CollectionView \<Rightarrow> 'a CollectionView outcome" where
  "set_pageSize value v =
     (if value < 1 then Throw (ValidationError ''pageSize'') v
      else applyPaging (v\<lparr>pageSize := value\<rparr>))"

definition set_pageIndex :: "int \<Rightarrow> 'a CollectionView \<Rightarrow> 'a CollectionView outcome" where
  "set_pageIndex value v =
     (if value < 0 then Throw (ValidationError ''pageIndex'') v
      else applyPaging (v\<lparr>pageIndex := value\<rparr>))"

definition page :: "int \<Rightarrow> int option \<Rightarrow> 'a CollectionView \<Rightarrow> 'a CollectionView outcome" where
  "page i sz v =
     andThen (set_pageSize (case sz of None \<Rightarrow> pageSize v | Some s \<Rightarrow> s) v) (set_pageIndex i)"

definition goToPage :: "int \<Rightarrow> 'a CollectionView \<Rightarrow> 'a CollectionView outcome" where
  "goToPage i v = set_pageIndex i v"

definition canNavigateToPreviousPage :: "'a CollectionView \<Rightarrow> bool" where
  "canNavigateToPreviousPage v = (pageIndex v > 0)"

definition canNavigateToNextPage :: "'a CollectionView \<Rightarrow> error + bool" where
  "canNavigateToNextPage v =
     (case pagedView v of
        None \<Rightarrow> Inl TypeError
      | Some p \<Rightarrow> Inr ((pageIndex v + 1) * pageSize v < int (length p)))"

definition goToPreviousPage :: "'a CollectionView \<Rightarrow> 'a CollectionView outcome" where
  "goToPreviousPage v =
     (if \<not> canNavigateToPreviousPage v then Throw (IllegalStateError ''previous'') v
      else page (pageIndex v - 1) None v)"

definition goToNextPage :: "'a CollectionView \<Rightarrow> 'a CollectionView outcome" where
  "goToNextPage v =
     (case canNavigateToNextPage v of
        Inl e \<Rightarrow> Throw e v
      | Inr b \<Rightarrow> if \<not> b then Throw (IllegalStateError ''next'') v
                 else page (pageIndex v + 1) None v)"

subsection \<open>Sorting and filtering stages\<close>

fun sortEach :: "'a CollectionViewSortingDescriptor list \<Rightarrow> 'a CollectionView
    \<Rightarrow> 'a CollectionView outcome" where
  "sortEach [] v = Done v"
| "sortEach (d # ds) v =
     (case sortedView v of
        None \<Rightarrow> Throw TypeError v
      | Some xs \<Rightarrow> sortEach ds (v\<lparr>sortedView := Some (array_sort (toStr v) (sd_comparer d) xs)\<rparr>))"

definition applySorting :: "'a CollectionView \<Rightarrow> 'a CollectionView outcome" where
  "applySorting v =
     (if suppressSorting v then Done v
      else andThen (sortEach (sorting v) v) applyPaging)"

definition applyFilters :: "'a CollectionView \<Rightarrow> 'a CollectionView outcome" where
  "applyFilters v =
     (if suppressFiltering v then Done v
      else andThen
             (andThen
                (Done (v\<lparr>filteredView :=
                          Some (foldl (\<lambda>acc f. filter (filter_predicate f) acc) (data v) (filters v))\<rparr>))
                applySorting)
             applyPaging)"

definition setData :: "'a list \<Rightarrow> 'a CollectionView \<Rightarrow> 'a CollectionView outcome" where
  "setData d v = applyFilters (v\<lparr>data := d\<rparr>)"

subsection \<open>Construction\<close>

text \<open>
  The field initialisers. An Observable source only registers a subscriber, whose
  emissions arrive later as calls of \<^verbatim>\<open>setData\<close>; an array is passed to
  \<^verbatim>\<open>setData\<close> at once.
\<close>

definition initial :: "('a \<Rightarrow> string) \<Rightarrow> 'a CollectionView" where
  "initial ts =
     \<lparr>toStr = ts, data = [], suppressFiltering = False, filteredView = None, filters = [],
      suppressSorting = False, sortedView = None, sorting = [], suppressPaging = False,
      pagedView = None, pageSize = 10, pageIndex = 0, handlers = [], raised = [], fresh = 0\<rparr>"

datatype 'a source = ArrayData "'a list" | ObservableData

definition CollectionView_new :: "('a \<Rightarrow> string) \<Rightarrow> 'a source \<Rightarrow> 'a CollectionView outcome" where
  "CollectionView_new ts src =
     (case src of
        ObservableData \<Rightarrow> Done (initial ts)
      | ArrayData d \<Rightarrow> setData d (initial ts))"

section \<open>The filter collection\<close>

text \<open>
  The constructor of the view registers \<^verbatim>\<open>() => this.applyFilters()\<close> on the
  collection's \<^verbatim>\<open>changed\<close> event and \<^verbatim>\<open>() => this.applySorting()\<close> on that of the
  sorting collection: raising a collection's event runs the view's recompute.
\<close>

definition filters_raiseChanged :: "'a CollectionView \<Rightarrow> 'a CollectionView outcome" where
  "filters_raiseChanged v = applyFilters v"

definition sorting_raiseChanged :: "'a CollectionView \<Rightarrow> 'a CollectionView outcome" where
  "sorting_raiseChanged v = applySorting v"

text \<open>A descriptor's \<^verbatim>\<open>raiseChanged\<close>: its handlers run in order, and a throw ends the run.\<close>

fun notify :: "('s \<Rightarrow> 's outcome) \<Rightarrow> handler list \<Rightarrow> 's \<Rightarrow> 's outcome" where
  "notify up [] s = Done s"
| "notify up (h # hs) s =
     andThen (case h of RaiseChangedHandler \<Rightarrow> up s | Listener n \<Rightarrow> Done s) (notify up hs)"

definition CollectionViewFilter_new :: "string \<Rightarrow> ('a \<Rightarrow> bool) \<Rightarrow> 'a CollectionViewFilter" where
  "CollectionViewFilter_new name p =
     \<lparr>filter_name = name, filter_predicate = p, filter_handlers = []\<rparr>"

definition filters_find :: "string \<Rightarrow> 'a CollectionViewFilter list \<Rightarrow> 'a CollectionViewFilter option" where
  "filters_find name fs = find (\<lambda>f. filter_name f = name) fs"

datatype 'a filter_arg =
    FilterObject "'a CollectionViewFilter"
  | NamedPredicate string "'a \<Rightarrow> bool"
  | AnonymousPredicate "'a \<Rightarrow> bool"

definition resolve_filter :: "'a filter_arg \<Rightarrow> 'a CollectionViewFilter list \<Rightarrow> 'a CollectionViewFilter" where
  "resolve_filter a fs =
     (case a of
        FilterObject f \<Rightarrow> f
      | NamedPredicate name p \<Rightarrow> CollectionViewFilter_new name p
      | AnonymousPredicate p \<Rightarrow> CollectionViewFilter_new (toString (length fs)) p)"

definition filters_add :: "'a filter_arg \<Rightarrow> 'a CollectionView \<Rightarrow> 'a CollectionView outcome" where
  "filters_add a v =
     (let flt = resolve_filter a (filters v)
      in if filters_find (filter_name flt) (filters v) \<noteq> None
         then Throw (DuplicateNameError (filter_name flt)) v
         else filters_raiseChanged
                (v\<lparr>filters := filters v @
                     [flt\<lparr>filter_handlers :=
                        addEventListener RaiseChangedHandler (filter_handlers flt)\<rparr>]\<rparr>))"

text \<open>
  A descriptor object handed to a collection is the member at a position or an object
  that is not in the collection; a position beyond the end denotes \<^verbatim>\<open>undefined\<close>.
  For an object that is not in the collection \<^verbatim>\<open>indexOf\<close> is \<open>-1\<close>, and
  \<^verbatim>\<open>splice(-1, 1)\<close> removes the last element.
\<close>

datatype 'd object = Member nat | Outsider 'd

datatype ('k, 'd) target = ByKey 'k | ByObject "'d object"

definition splice1 :: "int \<Rightarrow> 'x list \<Rightarrow> 'x list" where
  "splice1 index xs =
     (let len = int (length xs);
          k = (if index < 0 then max (len + index) 0 else min index len)
      in take (nat k) xs @ drop (nat k + 1) xs)"

fun index_of :: "('x \<Rightarrow> bool) \<Rightarrow> 'x list \<Rightarrow> int" where
  "index_of P [] = - 1"
| "index_of P (x # xs) = (if P x then 0 else let i = index_of P xs in if i < 0 then - 1 else i + 1)"

definition filters_remove :: "(string, 'a CollectionViewFilter) target \<Rightarrow> 'a CollectionView
    \<Rightarrow> 'a CollectionView outcome" where
  "filters_remove t v =
     (let fs = filters v;
          found = (case t of
                     ByKey name \<Rightarrow>
                       (case filters_find name fs of
                          None \<Rightarrow> None
                        | Some f \<Rightarrow> Some (f, index_of (\<lambda>g. filter_name g = name) fs))
                   | ByObject (Member i) \<Rightarrow> if i < length fs then Some (fs ! i, int i) else None
                   | ByObject (Outsider f) \<Rightarrow> Some (f, - 1))
      in case found of
           None \<Rightarrow> Throw (NotFoundError ''filter'') v
         | Some (flt, index) \<Rightarrow>
             (let v1 = v\<lparr>filters := splice1 index fs\<rparr>
              in case removeEventListener RaiseChangedHandler (filter_handlers flt) of
                   Inl e \<Rightarrow> Throw e v1
                 | Inr hs \<Rightarrow> filters_raiseChanged v1))"

fun filters_unsubscribe :: "'a CollectionViewFilter list \<Rightarrow> error option \<times> 'a CollectionViewFilter list" where
  "filters_unsubscribe [] = (None, [])"
| "filters_unsubscribe (f # fs) =
     (case removeEventListener RaiseChangedHandler (filter_handlers f) of
        Inl e \<Rightarrow> (Some e, f # fs)
      | Inr hs \<Rightarrow>
          (case filters_unsubscribe fs of (r, fs') \<Rightarrow> (r, f\<lparr>filter_handlers := hs\<rparr> # fs')))"

definition filters_clear :: "'a CollectionView \<Rightarrow> 'a CollectionView outcome" where
  "filters_clear v =
     (case filters_unsubscribe (filters v) of
        (Some e, fs) \<Rightarrow> Throw e (v\<lparr>filters := fs\<rparr>)
      | (None, fs) \<Rightarrow> filters_raiseChanged (v\<lparr>filters := []\<rparr>))"

text \<open>
  The \<^verbatim>\<open>predicate\<close> setter of the member at position \<open>i\<close>; on an object that is
  not in the collection it leaves the view alone.
\<close>

definition set_predicate :: "nat \<Rightarrow> ('a \<Rightarrow> bool) \<Rightarrow> 'a CollectionView \<Rightarrow> 'a CollectionView outcome" where
  "set_predicate i p v =
     (if i < length (filters v)
      then notify filters_raiseChanged (filter_handlers (filters v ! i))
             (v\<lparr>filters := (filters v)[i := (filters v ! i)\<lparr>filter_predicate := p\<rparr>]\<rparr>)
      else Done v)"

text \<open>The \<^verbatim>\<open>filter\<close> setter of the view.\<close>

definition set_filter :: "('a \<Rightarrow> bool) option \<Rightarrow> 'a CollectionView \<Rightarrow> 'a CollectionView outcome" where
  "set_filter predicate v =
     andThen
       (andThen (filters_clear (v\<lparr>suppressFiltering := True\<rparr>))
          (\<lambda>v1. case predicate of
                   None \<Rightarrow> Done v1
                 | Some p \<Rightarrow> filters_add (FilterObject (CollectionViewFilter_new ''Default'' p)) v1))
       (\<lambda>v2. applyFilters (v2\<lparr>suppressFiltering := False\<rparr>))"

section \<open>The sorting collection\<close>

definition CollectionViewSortingDescriptor_new ::
  "nat \<Rightarrow> 'a expression \<Rightarrow> SortDirection option
    \<Rightarrow> (nat \<times> (comparable \<Rightarrow> comparable \<Rightarrow> int)) option \<Rightarrow> 'a CollectionViewSortingDescriptor" where
  "CollectionViewSortingDescriptor_new r p1 direction comparer =
     \<lparr>sd_ref = r,
      sd_selector = (case p1 of PropertyName n \<Rightarrow> Some p1 | Selector i f \<Rightarrow> Some p1 | _ \<Rightarrow> None),
      sd_propertyComparer = comparer,
      sd_direction = (case direction of None \<Rightarrow> Ascending | Some d \<Rightarrow> d),
      sd_comparer = (case p1 of CompareFn c \<Rightarrow> Some c | _ \<Rightarrow> None),
      sd_handlers = []\<rparr>"

text \<open>\<^verbatim>\<open>d.selector === p1\<close> and \<^verbatim>\<open>d.comparer === p1\<close>: strings by value, functions by identity.\<close>

fun same_selector :: "'a expression option \<Rightarrow> 'a expression \<Rightarrow> bool" where
  "same_selector (Some (PropertyName a)) (PropertyName b) = (a = b)"
| "same_selector (Some (Selector i f)) (Selector j g) = (i = j)"
| "same_selector s p = False"

fun same_comparer :: "'a Comparer option \<Rightarrow> 'a expression \<Rightarrow> bool" where
  "same_comparer (Some c) (CompareFn c') = (fst c = fst c')"
| "same_comparer (Some c) (OtherFn j) = (fst c = j)"
| "same_comparer c p = False"

definition matches :: "'a expression \<Rightarrow> 'a CollectionViewSortingDescriptor \<Rightarrow> bool" where
  "matches p1 d =
     (case p1 of
        PropertyName n \<Rightarrow> same_selector (sd_selector d) p1
      | Selector i f \<Rightarrow> same_selector (sd_selector d) p1
      | _ \<Rightarrow> same_comparer (sd_comparer d) p1)"

definition sorting_find :: "'a expression \<Rightarrow> 'a CollectionViewSortingDescriptor list
    \<Rightarrow> 'a CollectionViewSortingDescriptor option" where
  "sorting_find p1 ds = find (matches p1) ds"

text \<open>A change of the object \<open>r\<close> shows in every entry that holds it.\<close>

definition update_object :: "nat \<Rightarrow> ('a CollectionViewSortingDescriptor \<Rightarrow> 'a CollectionViewSortingDescriptor)
    \<Rightarrow> 'a CollectionViewSortingDescriptor list \<Rightarrow> 'a CollectionViewSortingDescriptor list" where
  "update_object r f ds = map (\<lambda>d. if sd_ref d = r then f d else d) ds"

datatype 'a sorting_arg =
    DescriptorObject "'a CollectionViewSortingDescriptor object"
  | Expression "'a expression" "SortDirection option" "(nat \<times> (comparable \<Rightarrow> comparable \<Rightarrow> int)) option"

text \<open>
  \<^verbatim>\<open>add\<close>: the descriptor stays \<^verbatim>\<open>null\<close> for a function that takes neither one
  nor two arguments, and \<^verbatim>\<open>descriptor!.changed\<close> then throws. A comparator function
  is passed on without the direction.
\<close>

definition sorting_add :: "'a sorting_arg \<Rightarrow> 'a CollectionView \<Rightarrow> 'a CollectionView outcome" where
  "sorting_add a v =
     (let descriptor =
            (case a of
               DescriptorObject (Member i) \<Rightarrow>
                 if i < length (sorting v) then Some (sorting v ! i) else None
             | DescriptorObject (Outsider d) \<Rightarrow> Some (d\<lparr>sd_ref := fresh v\<rparr>)
             | Expression (PropertyName n) direction comparer \<Rightarrow>
                 Some (CollectionViewSortingDescriptor_new (fresh v) (PropertyName n) direction comparer)
             | Expression (Selector i f) direction comparer \<Rightarrow>
                 Some (CollectionViewSortingDescriptor_new (fresh v) (Selector i f) direction comparer)
             | Expression (CompareFn c) direction comparer \<Rightarrow>
                 Some (CollectionViewSortingDescriptor_new (fresh v) (CompareFn c) None None)
             | Expression (OtherFn j) direction comparer \<Rightarrow> None)
      in case descriptor of
           None \<Rightarrow> Throw TypeError v
         | Some d \<Rightarrow>
             (let d' = d\<lparr>sd_handlers := addEventListener RaiseChangedHandler (sd_handlers d)\<rparr>
              in sorting_raiseChanged
                   (v\<lparr>sorting := update_object (sd_ref d) (\<lambda>x. d') (sorting v) @ [d'],
                      fresh := Suc (fresh v)\<rparr>)))"

definition sorting_remove :: "('a expression, 'a CollectionViewSortingDescriptor) target
    \<Rightarrow> 'a CollectionView \<Rightarrow> 'a CollectionView outcome" where
  "sorting_remove t v =
     (let ds = sorting v;
          found = (case t of
                     ByKey p \<Rightarrow>
                       (case sorting_find p ds of
                          None \<Rightarrow> None
                        | Some d \<Rightarrow> Some (d, index_of (\<lambda>x. sd_ref x = sd_ref d) ds, True))
                   | ByObject (Member i) \<Rightarrow>
                       if i < length ds
                       then Some (ds ! i, index_of (\<lambda>x. sd_ref x = sd_ref (ds ! i)) ds, True)
                       else None
                   | ByObject (Outsider d) \<Rightarrow> Some (d, - 1, False))
      in case found of
           None \<Rightarrow> Throw (NotFoundError ''filter'') v
         | Some (descriptor, index, is_member) \<Rightarrow>
             (let v1 = v\<lparr>sorting := splice1 index ds\<rparr>
              in case removeEventListener RaiseChangedHandler (sd_handlers descriptor) of
                   Inl e \<Rightarrow> Throw e v1
                 | Inr hs \<Rightarrow>
                     sorting_raiseChanged
                       (if is_member
                        then v1\<lparr>sorting := update_object (sd_ref descriptor)
                                             (\<lambda>x. x\<lparr>sd_handlers := hs\<rparr>) (sorting v1)\<rparr>
                        else v1)))"

fun sorting_unsubscribe :: "nat list \<Rightarrow> 'a CollectionViewSortingDescriptor list
    \<Rightarrow> error option \<times> 'a CollectionViewSortingDescriptor list" where
  "sorting_unsubscribe [] ds = (None, ds)"
| "sorting_unsubscribe (r # rs) ds =
     (case find (\<lambda>d. sd_ref d = r) ds of
        None \<Rightarrow> sorting_unsubscribe rs ds
      | Some d \<Rightarrow>
          (case removeEventListener RaiseChangedHandler (sd_handlers d) of
             Inl e \<Rightarrow> (Some e, ds)
           | Inr hs \<Rightarrow>
               sorting_unsubscribe rs (update_object r (\<lambda>x. x\<lparr>sd_handlers := hs\<rparr>) ds)))"

definition sorting_clear :: "'a CollectionView \<Rightarrow> 'a CollectionView outcome" where
  "sorting_clear v =
     (case sorting_unsubscribe (map sd_ref (sorting v)) (sorting v) of
        (Some e, ds) \<Rightarrow> Throw e (v\<lparr>sorting := ds\<rparr>)
      | (None, ds) \<Rightarrow> sorting_raiseChanged (v\<lparr>sorting := []\<rparr>))"

text \<open>
  The \<^verbatim>\<open>direction\<close> setter and \<^verbatim>\<open>toggle\<close> of the descriptor object \<open>r\<close>; on
  an object that is not in the collection they leave the view alone.
\<close>

definition set_direction :: "nat \<Rightarrow> SortDirection \<Rightarrow> 'a CollectionView \<Rightarrow> 'a CollectionView outcome" where
  "set_direction r value v =
     (case find (\<lambda>d. sd_ref d = r) (sorting v) of
        None \<Rightarrow> Done v
      | Some d \<Rightarrow>
          notify sorting_raiseChanged (sd_handlers d)
            (v\<lparr>sorting := update_object r (\<lambda>x. x\<lparr>sd_direction := value\<rparr>) (sorting v)\<rparr>))"

fun opposite :: "SortDirection \<Rightarrow> SortDirection" where
  "opposite Ascending = Descending"
| "opposite Descending = Ascending"

definition toggle :: "nat \<Rightarrow> 'a CollectionView \<Rightarrow> 'a CollectionView outcome" where
  "toggle r v =
     (case find (\<lambda>d. sd_ref d = r) (sorting v) of
        None \<Rightarrow> Done v
      | Some d \<Rightarrow> set_direction r (opposite (sd_direction d)) v)"

definition sort_view :: "'a expression \<Rightarrow> SortDirection option \<Rightarrow> 'a CollectionView
    \<Rightarrow> 'a CollectionView outcome" where
  "sort_view expression direction v =
     andThen
       (andThen (sorting_clear (v\<lparr>suppressSorting := True\<rparr>))
          (sorting_add
             (Expression expression
                (Some (case direction of None \<Rightarrow> Ascending | Some d \<Rightarrow> d)) None)))
       (\<lambda>v2. applySorting (v2\<lparr>suppressSorting := False\<rparr>))"

fun toggle_each :: "nat list \<Rightarrow> 'a CollectionView \<Rightarrow> 'a CollectionView outcome" where
  "toggle_each [] v = Done v"
| "toggle_each (r # rs) v = andThen (toggle r v) (toggle_each rs)"

definition toggleSortOrder :: "'a CollectionView \<Rightarrow> 'a CollectionView outcome" where
  "toggleSortOrder v =
     andThen (toggle_each (map sd_ref (sorting v)) (v\<lparr>suppressSorting := True\<rparr>))
       (\<lambda>v1. applySorting (v1\<lparr>suppressSorting := False\<rparr>))"

definition toggleSortOrderBy :: "'a expression \<Rightarrow> 'a CollectionView \<Rightarrow> 'a CollectionView outcome" where
  "toggleSortOrderBy expression v =
     (case sorting_find expression (sorting v) of
        None \<Rightarrow> Throw (NotFoundError ''sort descriptor'') v
      | Some d \<Rightarrow> toggle (sd_ref d) v)"

section \<open>Calls on a view\<close>

datatype 'a call =
    SetData "'a list"
  | SetFilter "('a \<Rightarrow> bool) option"
  | ApplyFilters
  | FiltersAdd "'a filter_arg"
  | FiltersRemove "(string, 'a CollectionViewFilter) target"
  | FiltersClear
  | SetPredicate nat "'a \<Rightarrow> bool"
  | Sort "'a expression" "SortDirection option"
  | ToggleSortOrder
  | ToggleSortOrderBy "'a expression"
  | ApplySorting
  | SortingAdd "'a sorting_arg"
  | SortingRemove "('a expression, 'a CollectionViewSortingDescriptor) target"
  | SortingClear
  | SetDirection nat SortDirection
  | Toggle nat
  | SetPageSize int
  | SetPageIndex int
  | Page int "int option"
  | GoToPage int
  | ApplyPaging
  | GoToPreviousPage
  | GoToNextPage
  | AddListener nat
  | RemoveListener nat

fun exec :: "'a call \<Rightarrow> 'a CollectionView \<Rightarrow> 'a CollectionView outcome" where
  "exec (SetData d) v = setData d v"
| "exec (SetFilter p) v = set_filter p v"
| "exec ApplyFilters v = applyFilters v"
| "exec (FiltersAdd a) v = filters_add a v"
| "exec (FiltersRemove t) v = filters_remove t v"
| "exec FiltersClear v = filters_clear v"
| "exec (SetPredicate i p) v = set_predicate i p v"
| "exec (Sort e d) v = sort_view e d v"
| "exec ToggleSortOrder v = toggleSortOrder v"
| "exec (ToggleSortOrderBy e) v = toggleSortOrderBy e v"
| "exec ApplySorting v = applySorting v"
| "exec (SortingAdd a) v = sorting_add a v"
| "exec (SortingRemove t) v = sorting_remove t v"
| "exec SortingClear v = sorting_clear v"
| "exec (SetDirection r d) v = set_direction r d v"
| "exec (Toggle r) v = toggle r v"
| "exec (SetPageSize n) v = set_pageSize n v"
| "exec (SetPageIndex n) v = set_pageIndex n v"
| "exec (Page i s) v = page i s v"
| "exec (GoToPage i) v = goToPage i v"
| "exec ApplyPaging v = applyPaging v"
| "exec GoToPreviousPage v = goToPreviousPage v"
| "exec GoToNextPage v = goToNextPage v"
| "exec (AddListener h) v = Done (v\<lparr>handlers := addEventListener h (handlers v)\<rparr>)"
| "exec (RemoveListener h) v =
     (case removeEventListener h (handlers v) of
        Inl e \<Rightarrow> Throw e v
      | Inr hs \<Rightarrow> Done (v\<lparr>handlers := hs\<rparr>))"

text \<open>
  The state after a sequence of calls, each continuing from the state the previous one
  left, whether it returned or threw.
\<close>

fun run :: "'a call list \<Rightarrow> 'a CollectionView \<Rightarrow> 'a CollectionView" where
  "run [] v = v"
| "run (c # cs) v = run cs (state_of (exec c v))"

section \<open>Notions used in the statements\<close>


text \<open>
  A view as construction leaves it in these respects: the sorted and the paged stage
  unassigned, paging not suppressed, no event raised. A function keeps a view so when
  the view it leaves, returning or throwing, is so again.
\<close>

definition untouched :: "'a CollectionView \<Rightarrow> bool" where
  "untouched v =
     (sortedView v = None \<and> pagedView v = None \<and> \<not> suppressPaging v \<and> raised v = [])"

definition keeps :: "('a CollectionView \<Rightarrow> 'a CollectionView outcome) \<Rightarrow> bool" where
  "keeps f = (\<forall>v. untouched v \<longrightarrow> untouched (state_of (f v)))"

subsection \<open>Example views and calls\<close>

text \<open>A view of numbers with a listener, whose sorted stage holds \<open>[1, 2, 3]\<close>.\<close>

definition listened :: "int CollectionView" where
  "listened = (initial Number_toString)\<lparr>sortedView := Some [1, 2, 3], handlers := [0]\<rparr>"

text \<open>The view an Observable-constructed view is left as by \<^verbatim>\<open>filters.add("Default", x => 0 < x)\<close>.\<close>

definition with_default :: "int CollectionView" where
  "with_default =
     state_of (filters_add (NamedPredicate ''Default'' (\<lambda>x. 0 < x)) (initial Number_toString))"

text \<open>
  Records of a country and points are objects, which all convert to the same string.
  The two calls \<^verbatim>\<open>sorting.add("country")\<close> and
  \<^verbatim>\<open>sorting.add(u => u.points, SortDirection.Descending)\<close>.
\<close>

definition object_toString :: "string \<times> int \<Rightarrow> string" where
  "object_toString u = ''[object Object]''"

definition country_then_points :: "(string \<times> int) call list" where
  "country_then_points =
     [SortingAdd (Expression (PropertyName ''country'') None None),
      SortingAdd (Expression (Selector 1 (\<lambda>u. CNumber (snd u))) (Some Descending) None)]"

section \<open>The numbers from 1 to 25\<close>

lemma upto_25: "[1..25] = [1, 2, 3, 4, 5, 6, 7, 8, 9, 10, 11, 12, 13, 14, 15, 16, 17, 18, 19, 20,
    21, 22, 23, 24, 25 :: int]"
  by code_simp

section \<open>Paging setters\<close>

text \<open>
  C8. The \<^verbatim>\<open>pageSize\<close> setter throws for every value below 1 and the \<^verbatim>\<open>pageIndex\<close>
  setter for every value below 0; the throw comes before the assignment, so the view is
  left exactly as it was: the old page size and index, no recompute, no event.
\<close>

theorem paging_setters_reject:
  "(value < 1 \<longrightarrow> set_pageSize value v = Throw (ValidationError ''pageSize'') v)
   \<and> (value' < 0 \<longrightarrow> set_pageIndex value' v = Throw (ValidationError ''pageIndex'') v)"
  by (simp add: set_pageSize_def set_pageIndex_def)

theorem paging_setters_reject_witness:
  "(0::int) < 1 \<and> (- 1::int) < 0
   \<and> set_pageSize 0 listened = Throw (ValidationError ''pageSize'') listened
   \<and> set_pageIndex (- 1) listened = Throw (ValidationError ''pageIndex'') listened"
  using paging_setters_reject [of 0 listened "- 1"] by simp

section \<open>Construction from an array\<close>

text \<open>
  C2. For every array, the constructor throws: \<^verbatim>\<open>setData\<close> runs \<^verbatim>\<open>applyFilters\<close>,
  which assigns the filtered stage and runs \<^verbatim>\<open>applySorting\<close>; with no descriptor that
  assigns nothing and runs \<^verbatim>\<open>applyPaging\<close>, which takes a slice of the sorted stage,
  still unassigned. The view is left with the data and the filtered stage only.
\<close>

theorem constructor_array_throws:
  "CollectionView_new ts (ArrayData d) =
     Throw TypeError ((initial ts)\<lparr>data := d, filteredView := Some d\<rparr>)
   \<and> sortedView ((initial ts)\<lparr>data := d, filteredView := Some d\<rparr>) = None
   \<and> pagedView ((initial ts)\<lparr>data := d, filteredView := Some d\<rparr>) = None"
  by (simp add: CollectionView_new_def setData_def applyFilters_def applySorting_def
      applyPaging_def initial_def)

section \<open>The sorted stage is never assigned\<close>

text \<open>
  C1, at the input \<open>[3, 1, 2]\<close>: on a view constructed from an Observable, \<^verbatim>\<open>setData\<close>
  throws a TypeError and leaves the filtered stage \<open>[3, 1, 2]\<close> and the sorted stage
  unassigned. And on a view whose sorted stage holds \<open>[9]\<close> it returns with the
  filtered stage \<open>[3, 1, 2]\<close> and the sorted stage still \<open>[9]\<close>. Either way the
  sorted stage is no permutation of the filtered one.
\<close>

theorem setData_sorted_unassigned:
  "CollectionView_new Number_toString ObservableData = Done (initial Number_toString)
   \<and> setData [3, 1, 2] (initial Number_toString) =
       Throw TypeError ((initial Number_toString)\<lparr>data := [3, 1, 2], filteredView := Some [3, 1, 2]\<rparr>)
   \<and> sortedView (state_of (setData [3, 1, 2] (initial Number_toString))) = None
   \<and> setData [3, 1, 2] ((initial Number_toString)\<lparr>sortedView := Some [9]\<rparr>) =
       Done ((initial Number_toString)\<lparr>data := [3, 1, 2], filteredView := Some [3, 1, 2],
               sortedView := Some [9], pagedView := Some [9]\<rparr>)"
  by (simp add: CollectionView_new_def setData_def applyFilters_def applySorting_def
      applyPaging_def raiseChanged_def slice_def initial_def)

section \<open>No call assigns the sorted or the paged stage\<close>

text \<open>
  Every call leaves an untouched view untouched, whether it returns or throws: nothing
  assigns the sorted stage, so \<^verbatim>\<open>applyPaging\<close> throws before it assigns the paged
  stage or raises an event, and nothing sets \<^verbatim>\<open>suppressPaging\<close>. So a constructed
  view stays untouched along every sequence of calls.
\<close>

lemma sortEach_None: "sortedView v = None \<Longrightarrow> state_of (sortEach ds v) = v"
  by (cases ds) simp_all

lemma keepsI: "(\<And>v. untouched v \<Longrightarrow> untouched (state_of (f v))) \<Longrightarrow> keeps f"
  by (simp add: keeps_def)

lemma keepsD: "keeps f \<Longrightarrow> untouched v \<Longrightarrow> untouched (state_of (f v))"
  by (simp add: keeps_def)

lemma keeps_andThen:
  assumes "keeps f" "keeps g"
  shows "keeps (\<lambda>v. andThen (f v) g)"
proof (rule keepsI)
  fix v :: "'a CollectionView" assume u: "untouched v"
  show "untouched (state_of (andThen (f v) g))"
  proof (cases "f v")
    case (Done s)
    with keepsD [OF assms(1) u] have "untouched s" by simp
    with Done show ?thesis using keepsD [OF assms(2)] by simp
  next
    case (Throw e s)
    with keepsD [OF assms(1) u] show ?thesis by simp
  qed
qed

lemma andThen_keeps:
  assumes "untouched (state_of r)" "keeps g"
  shows "untouched (state_of (andThen r g))"
  using assms by (cases r) (auto dest: keepsD)

lemma keeps_applyPaging: "keeps applyPaging"
  by (rule keepsI) (simp add: untouched_def applyPaging_def)

lemma keeps_applySorting: "keeps applySorting"
proof (rule keepsI)
  fix v :: "'a CollectionView" assume u: "untouched v"
  then have "untouched (state_of (sortEach (sorting v) v))"
    by (simp add: sortEach_None untouched_def)
  then show "untouched (state_of (applySorting v))"
    using u by (simp add: applySorting_def andThen_keeps keeps_applyPaging)
qed

lemma keeps_applyFilters: "keeps applyFilters"
proof (rule keepsI)
  fix v :: "'a CollectionView" assume u: "untouched v"
  let ?v1 = "v\<lparr>filteredView :=
               Some (foldl (\<lambda>acc f. filter (filter_predicate f) acc) (data v) (filters v))\<rparr>"
  from u have "untouched ?v1" by (simp add: untouched_def)
  then have "untouched (state_of (applySorting ?v1))" by (rule keepsD [OF keeps_applySorting])
  then show "untouched (state_of (applyFilters v))"
    using u by (simp add: applyFilters_def andThen_keeps keeps_applyPaging)
qed

lemma keeps_notify: "keeps up \<Longrightarrow> keeps (notify up hs)"
proof (induction hs)
  case Nil
  show ?case by (rule keepsI) simp
next
  case (Cons h hs)
  have "keeps (\<lambda>s. case h of RaiseChangedHandler \<Rightarrow> up s | Listener n \<Rightarrow> Done s)"
    using Cons.prems by (cases h) (auto simp: keeps_def)
  from keeps_andThen [OF this Cons.IH [OF Cons.prems]] show ?case
    by (simp add: keeps_def)
qed

lemma untouched_update [simp]:
  "untouched (v\<lparr>data := a\<rparr>) = untouched v"
  "untouched (v\<lparr>suppressFiltering := b\<rparr>) = untouched v"
  "untouched (v\<lparr>filteredView := c\<rparr>) = untouched v"
  "untouched (v\<lparr>filters := d\<rparr>) = untouched v"
  "untouched (v\<lparr>suppressSorting := e\<rparr>) = untouched v"
  "untouched (v\<lparr>sorting := f\<rparr>) = untouched v"
  "untouched (v\<lparr>pageSize := g\<rparr>) = untouched v"
  "untouched (v\<lparr>pageIndex := h\<rparr>) = untouched v"
  "untouched (v\<lparr>handlers := i\<rparr>) = untouched v"
  "untouched (v\<lparr>fresh := j\<rparr>) = untouched v"
  by (simp_all add: untouched_def)

lemmas keeps_stage [simp] =
  keepsD [OF keeps_applyPaging] keepsD [OF keeps_applySorting] keepsD [OF keeps_applyFilters]

lemma keeps_setData: "keeps (setData d)"
  by (rule keepsI) (simp add: setData_def)

lemma keeps_filters_add: "keeps (filters_add a)"
  by (rule keepsI) (simp add: filters_add_def Let_def filters_raiseChanged_def)

lemma keeps_filters_remove: "keeps (filters_remove t)"
  by (rule keepsI)
    (simp add: filters_remove_def Let_def filters_raiseChanged_def
      split: option.splits sum.splits prod.splits target.splits)

lemma keeps_filters_clear: "keeps filters_clear"
  by (rule keepsI)
    (simp add: filters_clear_def filters_raiseChanged_def split: option.splits prod.splits)

lemma keeps_filters_raiseChanged: "keeps filters_raiseChanged"
  by (rule keepsI) (simp add: filters_raiseChanged_def)

lemma keeps_sorting_raiseChanged: "keeps sorting_raiseChanged"
  by (rule keepsI) (simp add: sorting_raiseChanged_def)

lemma keeps_set_predicate: "keeps (set_predicate i p)"
  by (rule keepsI)
    (simp add: set_predicate_def keepsD [OF keeps_notify [OF keeps_filters_raiseChanged]])

lemma keeps_set_filter: "keeps (set_filter p)"
proof (rule keepsI)
  fix v :: "'a CollectionView" assume u: "untouched v"
  have a: "keeps (\<lambda>v1. case p of None \<Rightarrow> Done v1
             | Some q \<Rightarrow> filters_add (FilterObject (CollectionViewFilter_new ''Default'' q)) v1)"
    by (cases p) (auto simp: keeps_def keepsD [OF keeps_filters_add])
  have b: "keeps (\<lambda>v2. applyFilters (v2\<lparr>suppressFiltering := False\<rparr>))"
    by (rule keepsI) simp
  from u have "untouched (state_of (filters_clear (v\<lparr>suppressFiltering := True\<rparr>)))"
    by (simp add: keepsD [OF keeps_filters_clear])
  then show "untouched (state_of (set_filter p v))"
    unfolding set_filter_def by (intro andThen_keeps a b)
qed

lemma keeps_sorting_add: "keeps (sorting_add a)"
  by (rule keepsI)
    (simp add: sorting_add_def Let_def sorting_raiseChanged_def
      split: option.splits sorting_arg.splits target.splits expression.splits)

lemma keeps_sorting_remove: "keeps (sorting_remove t)"
  by (rule keepsI)
    (simp add: sorting_remove_def Let_def sorting_raiseChanged_def
      split: option.splits sum.splits prod.splits target.splits)

lemma keeps_sorting_clear: "keeps sorting_clear"
  by (rule keepsI)
    (simp add: sorting_clear_def sorting_raiseChanged_def split: option.splits prod.splits)

lemma keeps_set_direction: "keeps (set_direction r d)"
  by (rule keepsI)
    (simp add: set_direction_def keepsD [OF keeps_notify [OF keeps_sorting_raiseChanged]]
      split: option.splits)

lemma keeps_toggle: "keeps (toggle r)"
  by (rule keepsI) (simp add: toggle_def keepsD [OF keeps_set_direction] split: option.splits)

lemma keeps_toggle_each: "keeps (toggle_each rs)"
proof (induction rs)
  case Nil
  show ?case by (rule keepsI) simp
next
  case (Cons r rs)
  from keeps_andThen [OF keeps_toggle Cons.IH] show ?case by (simp add: keeps_def)
qed

lemma keeps_sort_view: "keeps (sort_view e d)"
proof (rule keepsI)
  fix v :: "'a CollectionView" assume u: "untouched v"
  have b: "keeps (\<lambda>v2. applySorting (v2\<lparr>suppressSorting := False\<rparr>))"
    by (rule keepsI) simp
  from u have "untouched (state_of (sorting_clear (v\<lparr>suppressSorting := True\<rparr>)))"
    by (simp add: keepsD [OF keeps_sorting_clear])
  then show "untouched (state_of (sort_view e d v))"
    unfolding sort_view_def by (intro andThen_keeps keeps_sorting_add b)
qed

lemma keeps_toggleSortOrder: "keeps toggleSortOrder"
proof (rule keepsI)
  fix v :: "'a CollectionView" assume u: "untouched v"
  have b: "keeps (\<lambda>v2. applySorting (v2\<lparr>suppressSorting := False\<rparr>))"
    by (rule keepsI) simp
  from u have "untouched (state_of (toggle_each (map sd_ref (sorting v)) (v\<lparr>suppressSorting := True\<rparr>)))"
    by (simp add: keepsD [OF keeps_toggle_each])
  then show "untouched (state_of (toggleSortOrder v))"
    unfolding toggleSortOrder_def by (intro andThen_keeps b)
qed

lemma keeps_toggleSortOrderBy: "keeps (toggleSortOrderBy e)"
  by (rule keepsI)
    (simp add: toggleSortOrderBy_def keepsD [OF keeps_toggle] split: option.splits)

lemma keeps_set_pageSize: "keeps (set_pageSize n)"
  by (rule keepsI) (simp add: set_pageSize_def)

lemma keeps_set_pageIndex: "keeps (set_pageIndex n)"
  by (rule keepsI) (simp add: set_pageIndex_def)

lemma keeps_page: "keeps (page i s)"
proof (rule keepsI)
  fix v :: "'a CollectionView" assume u: "untouched v"
  then show "untouched (state_of (page i s v))"
    unfolding page_def
    by (intro andThen_keeps keeps_set_pageIndex) (simp add: keepsD [OF keeps_set_pageSize])
qed

lemma keeps_goToNextPage: "keeps goToNextPage"
  by (rule keepsI)
    (simp add: goToNextPage_def keepsD [OF keeps_page] split: sum.splits)

lemma keeps_goToPreviousPage: "keeps goToPreviousPage"
  by (rule keepsI) (simp add: goToPreviousPage_def keepsD [OF keeps_page])

lemma keeps_goToPage: "keeps (goToPage i)"
  by (rule keepsI) (simp add: goToPage_def keepsD [OF keeps_set_pageIndex])

lemma exec_untouched: "untouched v \<Longrightarrow> untouched (state_of (exec c v))"
  by (cases c)
    (simp_all add: keepsD [OF keeps_setData] keepsD [OF keeps_set_filter]
      keepsD [OF keeps_filters_add] keepsD [OF keeps_filters_remove]
      keepsD [OF keeps_filters_clear] keepsD [OF keeps_set_predicate]
      keepsD [OF keeps_sort_view] keepsD [OF keeps_toggleSortOrder]
      keepsD [OF keeps_toggleSortOrderBy] keepsD [OF keeps_sorting_add]
      keepsD [OF keeps_sorting_remove] keepsD [OF keeps_sorting_clear]
      keepsD [OF keeps_set_direction] keepsD [OF keeps_toggle] keepsD [OF keeps_set_pageSize]
      keepsD [OF keeps_set_pageIndex] keepsD [OF keeps_page] keepsD [OF keeps_goToPage]
      keepsD [OF keeps_goToPreviousPage] keepsD [OF keeps_goToNextPage] split: sum.splits)

lemma run_untouched: "untouched v \<Longrightarrow> untouched (run cs v)"
  by (induction cs arbitrary: v) (simp_all add: exec_untouched)

lemma initial_untouched: "untouched (initial ts)"
  by (simp add: untouched_def initial_def)

lemma run_unassigned:
  "sortedView (run cs (initial ts)) = None \<and> pagedView (run cs (initial ts)) = None"
  using run_untouched [OF initial_untouched, of cs ts] by (simp add: untouched_def)

lemma run_not_suppressed: "\<not> suppressPaging (run cs (initial ts))"
  using run_untouched [OF initial_untouched, of cs ts] by (simp add: untouched_def)

lemma run_raised: "raised (run cs (initial ts)) = []"
  using run_untouched [OF initial_untouched, of cs ts] by (simp add: untouched_def)




section \<open>The paging scenario\<close>

text \<open>
  C4, at the data \<open>[1..25]\<close>: the constructor throws a TypeError, so there is no view
  to page through. And on a view whose sorted stage does hold \<open>[1..25]\<close>, with page
  size 10 and page index 0, the paged stage is \<open>[1..10]\<close>, but
  \<^verbatim>\<open>canNavigateToNextPage\<close> compares 10 with the length of that paged stage, 10, and
  is false: the first \<^verbatim>\<open>goToNextPage\<close> throws.
\<close>

theorem scenario_25_fails:
  "CollectionView_new Number_toString (ArrayData [1..25]) =
     Throw TypeError ((initial Number_toString)\<lparr>data := [1..25], filteredView := Some [1..25]\<rparr>)
   \<and> (let v' = (initial Number_toString)\<lparr>sortedView := Some [1..25],
                    pagedView := Some [1, 2, 3, 4, 5, 6, 7, 8, 9, 10]\<rparr>
      in applyPaging ((initial Number_toString)\<lparr>sortedView := Some [1..25]\<rparr>) = Done v'
         \<and> canNavigateToNextPage v' = Inr False
         \<and> goToNextPage v' = Throw (IllegalStateError ''next'') v')"
  by (simp add: CollectionView_new_def setData_def applyFilters_def applySorting_def
      applyPaging_def raiseChanged_def canNavigateToNextPage_def goToNextPage_def
      initial_def slice_def upto_25 Let_def)

section \<open>The paged stage\<close>

text \<open>
  C5, at a view constructed from an Observable and \<^verbatim>\<open>pageSize = 5\<close>: after any
  sequence of calls on a constructed view \<^verbatim>\<open>applyPaging\<close> throws a TypeError and
  leaves the paged stage unassigned, since the sorted stage it slices is unassigned; so
  the setter throws after it has assigned the page size, and there is no paged stage to
  equal a slice. On a view whose sorted stage does hold \<open>[1..25]\<close>, with page index 2,
  \<^verbatim>\<open>applyPaging\<close> itself leaves the slice \<open>[21..25]\<close>.
\<close>

theorem applyPaging_throws:
  "thrown (applyPaging (run cs (initial ts))) = Some TypeError
   \<and> pagedView (state_of (applyPaging (run cs (initial ts)))) = None
   \<and> exec (SetPageSize 5) (initial Number_toString) =
       Throw TypeError ((initial Number_toString)\<lparr>pageSize := 5\<rparr>)
   \<and> pagedView ((initial Number_toString)\<lparr>pageSize := 5\<rparr>) = None
   \<and> applyPaging ((initial Number_toString)\<lparr>sortedView := Some [1..25], pageIndex := 2\<rparr>) =
       Done ((initial Number_toString)\<lparr>sortedView := Some [1..25], pageIndex := 2,
               pagedView := Some [21, 22, 23, 24, 25]\<rparr>)"
proof -
  let ?v = "run cs (initial ts)"
  note u = run_unassigned [of cs ts] and p = run_not_suppressed [of cs ts]
  from u p have "applyPaging ?v = Throw TypeError ?v" by (simp add: applyPaging_def)
  with u have "thrown (applyPaging ?v) = Some TypeError"
    "pagedView (state_of (applyPaging ?v)) = None" by simp_all
  moreover have "exec (SetPageSize 5) (initial Number_toString) =
       Throw TypeError ((initial Number_toString)\<lparr>pageSize := 5\<rparr>)"
    "pagedView ((initial Number_toString)\<lparr>pageSize := 5\<rparr>) = None"
    by (simp_all add: set_pageSize_def applyPaging_def initial_def)
  moreover have
    "applyPaging ((initial Number_toString)\<lparr>sortedView := Some [1..25], pageIndex := 2\<rparr>) =
       Done ((initial Number_toString)\<lparr>sortedView := Some [1..25], pageIndex := 2,
               pagedView := Some [21, 22, 23, 24, 25]\<rparr>)"
    by (simp add: applyPaging_def raiseChanged_def initial_def slice_def upto_25 Let_def)
  ultimately show ?thesis by simp
qed

section \<open>Navigation to the next page\<close>

text \<open>
  C10, at a view constructed from an Observable: after any sequence of calls on a
  constructed view the paged stage is unassigned, so \<^verbatim>\<open>canNavigateToNextPage\<close> throws
  a TypeError on reading its length, where the claim has it false, and \<^verbatim>\<open>goToNextPage\<close>
  throws that TypeError, not the error of its guard. The sibling
  \<^verbatim>\<open>canNavigateToPreviousPage\<close> is false on the same view.
\<close>

theorem canNavigateToNextPage_throws:
  "canNavigateToNextPage (run cs (initial ts)) = Inl TypeError
   \<and> goToNextPage (run cs (initial ts)) = Throw TypeError (run cs (initial ts))
   \<and> CollectionView_new Number_toString ObservableData = Done (initial Number_toString)
   \<and> canNavigateToNextPage (initial Number_toString) = Inl TypeError
   \<and> canNavigateToPreviousPage (initial Number_toString) = False"
proof -
  from run_unassigned [of cs ts]
  have "canNavigateToNextPage (run cs (initial ts)) = Inl TypeError"
    by (simp add: canNavigateToNextPage_def)
  then have "goToNextPage (run cs (initial ts)) = Throw TypeError (run cs (initial ts))"
    by (simp add: goToNextPage_def)
  moreover have "CollectionView_new Number_toString ObservableData = Done (initial Number_toString)"
    "canNavigateToNextPage (initial Number_toString) = Inl TypeError"
    "canNavigateToPreviousPage (initial Number_toString) = False"
    by (simp_all add: CollectionView_new_def canNavigateToNextPage_def
        canNavigateToPreviousPage_def initial_def)
  ultimately show ?thesis
    using \<open>canNavigateToNextPage (run cs (initial ts)) = Inl TypeError\<close> by simp
qed

section \<open>Duplicate filter names\<close>

text \<open>
  C9. When the name \<^verbatim>\<open>add\<close> resolves (that of the descriptor object given, the name
  given, or the string of the current count for a bare predicate) is the name of a
  filter in the collection, \<^verbatim>\<open>add\<close> throws and the view, with its filters and their
  handlers, its stages and its raised events, is left as it was.
\<close>

theorem filters_add_duplicate:
  assumes "g \<in> set (filters v)" "filter_name g = name"
    and "a = FilterObject f \<and> filter_name f = name \<or> a = NamedPredicate name p
         \<or> a = AnonymousPredicate p \<and> toString (length (filters v)) = name"
  shows "filters_add a v = Throw (DuplicateNameError name) v"
proof -
  from assms(3) have n: "filter_name (resolve_filter a (filters v)) = name"
    by (auto simp: resolve_filter_def CollectionViewFilter_new_def)
  from assms(1,2) have "filters_find name (filters v) \<noteq> None"
    by (auto simp: filters_find_def find_None_iff)
  with n show ?thesis by (simp add: filters_add_def)
qed

lemma filters_with_default:
  "filters with_default =
     [\<lparr>filter_name = ''Default'', filter_predicate = (\<lambda>x. 0 < x),
       filter_handlers = [RaiseChangedHandler]\<rparr>]"
  by (simp add: with_default_def filters_add_def resolve_filter_def CollectionViewFilter_new_def
      filters_find_def filters_raiseChanged_def applyFilters_def applySorting_def applyPaging_def
      initial_def addEventListener_def)

theorem filters_add_duplicate_witness:
  "filters_add (NamedPredicate ''Default'' (\<lambda>x. x < 0)) with_default =
     Throw (DuplicateNameError ''Default'') with_default
   \<and> filters with_default =
     [\<lparr>filter_name = ''Default'', filter_predicate = (\<lambda>x. 0 < x),
       filter_handlers = [RaiseChangedHandler]\<rparr>]"
  using filters_add_duplicate [of "\<lparr>filter_name = ''Default'', filter_predicate = (\<lambda>x. 0 < x),
       filter_handlers = [RaiseChangedHandler]\<rparr>" with_default "''Default''"
      "NamedPredicate ''Default'' (\<lambda>x. x < 0)" _ "\<lambda>x. x < 0"]
  by (simp add: filters_with_default)

section \<open>Idempotence of the recomputes\<close>


section \<open>Two sorting descriptors\<close>

text \<open>
  C6, at the calls \<^verbatim>\<open>sorting.add("country")\<close>,
  \<^verbatim>\<open>sorting.add(u => u.points, SortDirection.Descending)\<close> and the data
  \<open>[(HU, 1), (AT, 2)]\<close>. On a view constructed from an Observable each of the two calls
  throws a TypeError, re-sorting the unassigned sorted stage, and so does \<^verbatim>\<open>setData\<close>:
  there is no sorted stage. Neither descriptor holds a comparator, since the
  constructor takes one from a two-argument function only and nothing reads the
  direction. So on a view whose sorted stage does hold \<open>[(HU, 1), (AT, 2)]\<close> the two calls
  return and leave it as it was, two records of different countries against the order of
  their countries.
\<close>

theorem country_order_fails:
  "thrown (exec (SortingAdd (Expression (PropertyName ''country'') None None))
       (initial object_toString)) = Some TypeError
   \<and> map sd_comparer (sorting (run country_then_points (initial object_toString))) = [None, None]
   \<and> map sd_direction (sorting (run country_then_points (initial object_toString))) =
       [Ascending, Descending]
   \<and> thrown (exec (SetData [(''HU'', 1), (''AT'', 2)])
       (run country_then_points (initial object_toString))) = Some TypeError
   \<and> sortedView (state_of (exec (SetData [(''HU'', 1), (''AT'', 2)])
       (run country_then_points (initial object_toString)))) = None
   \<and> sortedView (run country_then_points
       ((initial object_toString)\<lparr>sortedView := Some [(''HU'', 1), (''AT'', 2)]\<rparr>)) =
       Some [(''HU'', 1), (''AT'', 2)]
   \<and> ''AT'' < ''HU''"
  by (simp add: country_then_points_def object_toString_def initial_def sorting_add_def
      sorting_raiseChanged_def update_object_def addEventListener_def setData_def
      applyFilters_def applySorting_def applyPaging_def raiseChanged_def
      CollectionViewSortingDescriptor_new_def array_sort_def sort_by_def comparefn_def
      defaultCompare_def slice_def Let_def)

section \<open>Change events\<close>

text \<open>
  C3, at a view constructed from an Observable, a listener and \<^verbatim>\<open>setData([1, 2, 3])\<close>:
  the call throws a TypeError in \<^verbatim>\<open>applyPaging\<close>, before \<^verbatim>\<open>raiseChanged\<close>, and no
  event is raised; indeed no sequence of calls on a constructed view ever raises one.
  And on a view with a listener whose sorted stage does hold \<open>[1, 2, 3]\<close> the call
  returns with two events raised, since \<^verbatim>\<open>applyFilters\<close> runs \<^verbatim>\<open>applyPaging\<close> through
  \<^verbatim>\<open>applySorting\<close> and then again itself.
\<close>

theorem no_change_event_raised:
  "raised (run cs (initial ts)) = []
   \<and> handlers (run [AddListener 0] (initial Number_toString)) = [0]
   \<and> thrown (exec (SetData [1, 2, 3]) (run [AddListener 0] (initial Number_toString))) =
       Some TypeError
   \<and> raised (state_of (exec (SetData [1, 2, 3]) (run [AddListener 0] (initial Number_toString)))) = []
   \<and> raised listened = []
   \<and> thrown (exec (SetData [1, 2, 3]) listened) = None
   \<and> raised (state_of (exec (SetData [1, 2, 3]) listened)) = [[1, 2, 3], [1, 2, 3]]"
proof -
  have "handlers (run [AddListener 0] (initial Number_toString)) = [0]"
    "thrown (exec (SetData [1, 2, 3]) (run [AddListener 0] (initial Number_toString))) =
       Some TypeError"
    "raised (state_of (exec (SetData [1, 2, 3]) (run [AddListener 0] (initial Number_toString)))) = []"
    "raised listened = []"
    "thrown (exec (SetData [1, 2, 3]) listened) = None"
    "raised (state_of (exec (SetData [1, 2, 3]) listened)) = [[1, 2, 3], [1, 2, 3]]"
    by (simp_all add: listened_def initial_def setData_def applyFilters_def applySorting_def
        applyPaging_def raiseChanged_def slice_def addEventListener_def)
  with run_raised [of cs ts] show ?thesis by simp
qed

end
